theory Spec2Isabelle
  imports Complex_Main "HOL-Library.Sublist"
begin

section \<open>The PROSAIL driver: \<^verbatim>\<open>prosail/sail_model.py\<close>\<close>

text \<open>
  The file defines two functions, \<^verbatim>\<open>run_prosail\<close> and \<^verbatim>\<open>run_sail\<close>. Both validate
  the output-factor selector, resolve the two soil component spectra, resolve the soil
  background spectrum, call the canopy model \<^verbatim>\<open>sail\<close> and select rows of its result;
  \<^verbatim>\<open>run_prosail\<close> calls the leaf model \<^verbatim>\<open>run_prospect\<close> in between.

  Modelling decisions:
  \<^item> Python floats are modelled by \<^typ>\<open>real\<close>, so rounding, infinities and NaN are
    outside the model.
  \<^item> A spectrum is a one-dimensional numpy array of floats, modelled by a \<^typ>\<open>real list\<close>;
    \<^verbatim>\<open>len\<close> is \<^const>\<open>length\<close>. A two-dimensional array is the list of its rows.
  \<^item> An optional argument whose default is \<^verbatim>\<open>None\<close> is an \<^typ>\<open>'a option\<close>.
  \<^item> Every \<^verbatim>\<open>raise\<close>, failed \<^verbatim>\<open>assert\<close> (assertions enabled, as by default) and
    lookup of an unbound name is a value \<open>Inl e\<close> of the result type.
  \<^item> The function bodies mention global names. The namespace in which they are looked
    up is an explicit argument of the model; \<open>module_globals\<close> is the namespace that the
    file itself builds when it is imported.
\<close>

subsection \<open>Errors and values\<close>

type_synonym spectrum = "real list"

datatype error =
    ValueError string
  | AssertionError
  | NameError string
  | IndexError

text \<open>What a call returns: one row \<^verbatim>\<open>rho[k, :]\<close>, the whole array \<^verbatim>\<open>rho\<close>, or \<^verbatim>\<open>None\<close>
  when the \<^verbatim>\<open>if\<close>/\<^verbatim>\<open>elif\<close> chain at the end of the function is left without a
  \<^verbatim>\<open>return\<close>.\<close>

datatype retval =
    Row spectrum
  | Rows "spectrum list"
  | PyNone

subsection \<open>Arguments of the functions of the file and of the functions they call\<close>

text \<open>The positional arguments of the call
  \<^verbatim>\<open>sail(refl, trans, lai, lidfa, lidfb, rsoil0, hspot, tts, tto, psi, typelidf)\<close>.\<close>

record sail_args =
  c_refl :: spectrum
  c_trans :: spectrum
  c_lai :: real
  c_lidfa :: real
  c_lidfb :: real
  c_rsoil0 :: spectrum
  c_hspot :: real
  c_tts :: real
  c_tto :: real
  c_psi :: real
  c_typelidf :: int

text \<open>The arguments of the call \<^verbatim>\<open>run_prospect(n, cab, car, cbrown, cw, cm, ant=ant,
  prospect_version=prospect_version, nr=nr, kab=kab, kcar=kcar, kbrown=kbrown, kw=kw,
  km=km, kant=kant, alpha=alpha)\<close>.\<close>

record prospect_args =
  l_n :: real
  l_cab :: real
  l_car :: real
  l_cbrown :: real
  l_cw :: real
  l_cm :: real
  l_ant :: real
  l_prospect_version :: string
  l_nr :: spectrum
  l_kab :: spectrum
  l_kcar :: spectrum
  l_kbrown :: spectrum
  l_kw :: spectrum
  l_km :: spectrum
  l_kant :: spectrum
  l_alpha :: real

text \<open>The parameters of \<^verbatim>\<open>run_sail\<close> (line 124).\<close>

record run_sail_args =
  s_refl :: spectrum
  s_trans :: spectrum
  s_lai :: real
  s_lidfa :: real
  s_hspot :: real
  s_tts :: real
  s_tto :: real
  s_psi :: real
  s_typelidf :: int
  s_lidfb :: real
  s_factor :: string
  s_rsoil0 :: "spectrum option"
  s_rsoil :: "real option"
  s_psoil :: "real option"
  s_soil_spectrum1 :: "spectrum option"
  s_soil_spectrum2 :: "spectrum option"

text \<open>The parameters of \<^verbatim>\<open>run_prosail\<close> (line 7).\<close>

record run_prosail_args =
  p_n :: real
  p_cab :: real
  p_car :: real
  p_cbrown :: real
  p_cw :: real
  p_cm :: real
  p_lai :: real
  p_lidfa :: real
  p_hspot :: real
  p_tts :: real
  p_tto :: real
  p_psi :: real
  p_ant :: real
  p_alpha :: real
  p_prospect_version :: string
  p_typelidf :: int
  p_lidfb :: real
  p_factor :: string
  p_rsoil0 :: "spectrum option"
  p_rsoil :: "real option"
  p_psoil :: "real option"
  p_soil_spectrum1 :: "spectrum option"
  p_soil_spectrum2 :: "spectrum option"

subsection \<open>The global namespace\<close>

text \<open>The attributes \<^verbatim>\<open>rsoil1\<close> and \<^verbatim>\<open>rsoil2\<close> of the object the code expects under the
  name \<^verbatim>\<open>spectral_libs\<close>.\<close>

record spectral_lib =
  rsoil1 :: spectrum
  rsoil2 :: spectrum

text \<open>
  The global names the two function bodies read. \<^verbatim>\<open>run_prospect\<close> is bound by the
  import at line 5; it returns the triple \<^verbatim>\<open>(wv, refl, trans)\<close> or raises. Every other
  name is bound or not: \<^verbatim>\<open>sail\<close> (the canopy model, returning the array \<^verbatim>\<open>rho\<close> or
  raising), \<^verbatim>\<open>spectral_libs\<close>, and the seven tables handed to the leaf model.
\<close>

record globals =
  g_run_prospect :: "prospect_args \<Rightarrow> error + (spectrum \<times> spectrum \<times> spectrum)"
  g_sail :: "(sail_args \<Rightarrow> error + spectrum list) option"
  g_spectral_libs :: "spectral_lib option"
  g_nr :: "spectrum option"
  g_kab :: "spectrum option"
  g_kcar :: "spectrum option"
  g_kbrown :: "spectrum option"
  g_kw :: "spectrum option"
  g_km :: "spectrum option"
  g_kant :: "spectrum option"

text \<open>
  The namespace of the module as the file builds it: lines 2 to 5 bind \<^verbatim>\<open>np\<close>, \<^verbatim>\<open>scipy\<close>
  and \<^verbatim>\<open>run_prospect\<close>, lines 7 and 124 bind the two functions, and nothing else is
  imported or assigned. The imported leaf model is the parameter.
\<close>

definition module_globals ::
  "(prospect_args \<Rightarrow> error + (spectrum \<times> spectrum \<times> spectrum)) \<Rightarrow> globals" where
  "module_globals run_prospect =
     \<lparr> g_run_prospect = run_prospect, g_sail = None, g_spectral_libs = None,
       g_nr = None, g_kab = None, g_kcar = None, g_kbrown = None,
       g_kw = None, g_km = None, g_kant = None \<rparr>"

text \<open>Reading a global name: its value, or \<^verbatim>\<open>NameError\<close>.\<close>

definition lookup :: "string \<Rightarrow> 'a option \<Rightarrow> error + 'a" where
  "lookup name b = (case b of None \<Rightarrow> Inl (NameError name) | Some v \<Rightarrow> Inr v)"

subsection \<open>The output-factor selector (lines 83 to 85 and 187 to 189)\<close>

text \<open>\<^verbatim>\<open>str.upper\<close> on a byte string: the letters a to z go to A to Z, every other
  byte stays.\<close>

definition upper_char :: "char \<Rightarrow> char" where
  "upper_char c =
     (case map_of (zip ''abcdefghijklmnopqrstuvwxyz'' ''ABCDEFGHIJKLMNOPQRSTUVWXYZ'') c of
        Some u \<Rightarrow> u
      | None \<Rightarrow> c)"

definition upper :: "string \<Rightarrow> string" where
  "upper s = map upper_char s"

definition factors :: "string list" where
  "factors = [''SDR'', ''BHR'', ''DHR'', ''HDR'', ''ALL'']"

definition factor_msg :: string where
  "factor_msg = CHR 0x27 # ''factor'' @ CHR 0x27 # '' must be one of SDR, BHR, DHR, HDR or ALL''"

definition check_factor :: "string \<Rightarrow> error + string" where
  "check_factor factor =
     (let factor = upper factor in
      if factor \<notin> set factors then Inl (ValueError factor_msg) else Inr factor)"

subsection \<open>The soil component spectra (lines 87 to 95 and 191 to 199)\<close>

text \<open>
  The first statement checks the length of \<^verbatim>\<open>soil_spectrum1\<close> when it is supplied and
  reads \<^verbatim>\<open>spectral_libs.rsoil1\<close> otherwise. The second statement, for
  \<^verbatim>\<open>soil_spectrum2\<close>, asserts \<^verbatim>\<open>len(soil_spectrum1) == 2101\<close> again (lines 93 and 197):
  the length of \<^verbatim>\<open>soil_spectrum2\<close> is not read.
\<close>

definition resolve_spectrum1 :: "globals \<Rightarrow> spectrum option \<Rightarrow> error + spectrum" where
  "resolve_spectrum1 g soil_spectrum1 =
     (case soil_spectrum1 of
        Some s1 \<Rightarrow> if length s1 = 2101 then Inr s1 else Inl AssertionError
      | None \<Rightarrow>
          (case lookup ''spectral_libs'' (g_spectral_libs g) of
             Inl e \<Rightarrow> Inl e
           | Inr lib \<Rightarrow> Inr (rsoil1 lib)))"

definition resolve_spectrum2 ::
  "globals \<Rightarrow> spectrum \<Rightarrow> spectrum option \<Rightarrow> error + spectrum" where
  "resolve_spectrum2 g soil_spectrum1 soil_spectrum2 =
     (case soil_spectrum2 of
        Some s2 \<Rightarrow> if length soil_spectrum1 = 2101 then Inr s2 else Inl AssertionError
      | None \<Rightarrow>
          (case lookup ''spectral_libs'' (g_spectral_libs g) of
             Inl e \<Rightarrow> Inl e
           | Inr lib \<Rightarrow> Inr (rsoil2 lib)))"

definition resolve_spectra ::
  "globals \<Rightarrow> spectrum option \<Rightarrow> spectrum option \<Rightarrow> error + (spectrum \<times> spectrum)" where
  "resolve_spectra g soil_spectrum1 soil_spectrum2 =
     (case resolve_spectrum1 g soil_spectrum1 of
        Inl e \<Rightarrow> Inl e
      | Inr s1 \<Rightarrow>
          (case resolve_spectrum2 g s1 soil_spectrum2 of
             Inl e \<Rightarrow> Inl e
           | Inr s2 \<Rightarrow> Inr (s1, s2)))"

subsection \<open>The soil background (lines 97 to 102 and 201 to 206)\<close>

text \<open>
  numpy arithmetic on one-dimensional arrays: a scalar times an array is elementwise;
  the sum of two arrays is elementwise when the lengths agree, an array of length one
  is broadcast against the other, and any other pair of lengths raises \<^verbatim>\<open>ValueError\<close>.
\<close>

definition np_scale :: "real \<Rightarrow> spectrum \<Rightarrow> spectrum" where
  "np_scale c xs = map (\<lambda>x. c * x) xs"

text \<open>The message of that error names the two shapes, written in decimal.\<close>

fun decimal :: "nat \<Rightarrow> string" where
  "decimal n =
     (if n < 10 then [''0123456789'' ! n]
      else decimal (n div 10) @ [''0123456789'' ! (n mod 10)])"

declare decimal.simps [simp del]

definition shape :: "spectrum \<Rightarrow> string" where
  "shape xs = ''('' @ decimal (length xs) @ '',)''"

definition broadcast_msg :: "spectrum \<Rightarrow> spectrum \<Rightarrow> string" where
  "broadcast_msg xs ys =
     ''operands could not be broadcast together with shapes '' @
     shape xs @ '' '' @ shape ys @ '' ''"

definition np_add :: "spectrum \<Rightarrow> spectrum \<Rightarrow> error + spectrum" where
  "np_add xs ys =
     (if length xs = length ys then Inr (map2 (\<lambda>x y. x + y) xs ys)
      else if length xs = 1 then Inr (map (\<lambda>y. hd xs + y) ys)
      else if length ys = 1 then Inr (map (\<lambda>x. x + hd ys) xs)
      else Inl (ValueError (broadcast_msg xs ys)))"

text \<open>The expression
  \<^verbatim>\<open>rsoil * (psoil * soil_spectrum1 + (1. - psoil) * soil_spectrum2)\<close>.\<close>

definition soil_mix :: "real \<Rightarrow> real \<Rightarrow> spectrum \<Rightarrow> spectrum \<Rightarrow> error + spectrum" where
  "soil_mix rsoil psoil soil_spectrum1 soil_spectrum2 =
     (case np_add (np_scale psoil soil_spectrum1) (np_scale (1 - psoil) soil_spectrum2) of
        Inl e \<Rightarrow> Inl e
      | Inr m \<Rightarrow> Inr (np_scale rsoil m))"

definition sail_soil_msg :: string where
  "sail_soil_msg = ''If rsoil0 isn't defined, then rsoil and psoil need to be defined!''"

definition prosail_soil_msg :: string where
  "prosail_soil_msg = ''If rsoil0 isn't define, then rsoil and psoil need to be defined!''"

text \<open>The statement \<^verbatim>\<open>if rsoil0 is None: ...\<close>; the two functions differ in the
  message only.\<close>

definition resolve_rsoil0 ::
  "string \<Rightarrow> spectrum option \<Rightarrow> real option \<Rightarrow> real option \<Rightarrow> spectrum \<Rightarrow> spectrum
     \<Rightarrow> error + spectrum" where
  "resolve_rsoil0 msg rsoil0 rsoil psoil soil_spectrum1 soil_spectrum2 =
     (case rsoil0 of
        Some r0 \<Rightarrow> Inr r0
      | None \<Rightarrow>
          (case (rsoil, psoil) of
             (Some r, Some p) \<Rightarrow> soil_mix r p soil_spectrum1 soil_spectrum2
           | _ \<Rightarrow> Inl (ValueError msg)))"

subsection \<open>Selecting the result (lines 112 to 121 and 210 to 219)\<close>

text \<open>\<^verbatim>\<open>rho[k, :]\<close> raises \<^verbatim>\<open>IndexError\<close> when the array has no row \<open>k\<close>.\<close>

definition row :: "spectrum list \<Rightarrow> nat \<Rightarrow> error + retval" where
  "row rho k = (if k < length rho then Inr (Row (rho ! k)) else Inl IndexError)"

definition select_factor :: "string \<Rightarrow> spectrum list \<Rightarrow> error + retval" where
  "select_factor factor rho =
     (if factor = ''SDR'' then row rho 0
      else if factor = ''BHR'' then row rho 1
      else if factor = ''DHR'' then row rho 2
      else if factor = ''HDR'' then row rho 3
      else if factor = ''ALL'' then Inr (Rows rho)
      else Inr PyNone)"

text \<open>The call \<^verbatim>\<open>rho = sail(...)\<close> followed by the selection: the name \<^verbatim>\<open>sail\<close> is
  looked up, the function is called, and the rows are selected.\<close>

definition call_sail :: "globals \<Rightarrow> string \<Rightarrow> sail_args \<Rightarrow> error + retval" where
  "call_sail g factor ca =
     (case lookup ''sail'' (g_sail g) of
        Inl e \<Rightarrow> Inl e
      | Inr sail \<Rightarrow>
          (case sail ca of
             Inl e \<Rightarrow> Inl e
           | Inr rho \<Rightarrow> select_factor factor rho))"

subsection \<open>\<^verbatim>\<open>run_sail\<close> (lines 124 to 219)\<close>

text \<open>Lines 187 to 206: everything before the call of \<^verbatim>\<open>sail\<close>. The result is the
  upper-cased selector and the arguments with which \<^verbatim>\<open>sail\<close> is called at line 207.\<close>

definition sail_inputs :: "globals \<Rightarrow> run_sail_args \<Rightarrow> error + (string \<times> sail_args)" where
  "sail_inputs g a =
     (case check_factor (s_factor a) of
        Inl e \<Rightarrow> Inl e
      | Inr factor \<Rightarrow>
          (case resolve_spectra g (s_soil_spectrum1 a) (s_soil_spectrum2 a) of
             Inl e \<Rightarrow> Inl e
           | Inr (soil_spectrum1, soil_spectrum2) \<Rightarrow>
               (case resolve_rsoil0 sail_soil_msg (s_rsoil0 a) (s_rsoil a) (s_psoil a)
                       soil_spectrum1 soil_spectrum2 of
                  Inl e \<Rightarrow> Inl e
                | Inr rsoil0 \<Rightarrow>
                    Inr (factor,
                         \<lparr> c_refl = s_refl a, c_trans = s_trans a, c_lai = s_lai a,
                           c_lidfa = s_lidfa a, c_lidfb = s_lidfb a, c_rsoil0 = rsoil0,
                           c_hspot = s_hspot a, c_tts = s_tts a, c_tto = s_tto a,
                           c_psi = s_psi a, c_typelidf = s_typelidf a \<rparr>))))"

definition run_sail :: "globals \<Rightarrow> run_sail_args \<Rightarrow> error + retval" where
  "run_sail g a =
     (case sail_inputs g a of
        Inl e \<Rightarrow> Inl e
      | Inr (factor, ca) \<Rightarrow> call_sail g factor ca)"

subsection \<open>\<^verbatim>\<open>run_prosail\<close> (lines 7 to 121)\<close>

text \<open>Lines 83 to 102: the selector and the soil background.\<close>

definition prosail_soil :: "globals \<Rightarrow> run_prosail_args \<Rightarrow> error + (string \<times> spectrum)" where
  "prosail_soil g a =
     (case check_factor (p_factor a) of
        Inl e \<Rightarrow> Inl e
      | Inr factor \<Rightarrow>
          (case resolve_spectra g (p_soil_spectrum1 a) (p_soil_spectrum2 a) of
             Inl e \<Rightarrow> Inl e
           | Inr (soil_spectrum1, soil_spectrum2) \<Rightarrow>
               (case resolve_rsoil0 prosail_soil_msg (p_rsoil0 a) (p_rsoil a) (p_psoil a)
                       soil_spectrum1 soil_spectrum2 of
                  Inl e \<Rightarrow> Inl e
                | Inr rsoil0 \<Rightarrow> Inr (factor, rsoil0))))"

text \<open>Lines 104 to 107: the arguments of the call of \<^verbatim>\<open>run_prospect\<close> are evaluated
  from left to right; the keyword values \<^verbatim>\<open>nr\<close>, \<^verbatim>\<open>kab\<close>, \<^verbatim>\<open>kcar\<close>, \<^verbatim>\<open>kbrown\<close>, \<^verbatim>\<open>kw\<close>,
  \<^verbatim>\<open>km\<close> and \<^verbatim>\<open>kant\<close> are global names.\<close>

definition prospect_inputs :: "globals \<Rightarrow> run_prosail_args \<Rightarrow> error + prospect_args" where
  "prospect_inputs g a =
     (case lookup ''nr'' (g_nr g) of Inl e \<Rightarrow> Inl e | Inr nr \<Rightarrow>
     (case lookup ''kab'' (g_kab g) of Inl e \<Rightarrow> Inl e | Inr kab \<Rightarrow>
     (case lookup ''kcar'' (g_kcar g) of Inl e \<Rightarrow> Inl e | Inr kcar \<Rightarrow>
     (case lookup ''kbrown'' (g_kbrown g) of Inl e \<Rightarrow> Inl e | Inr kbrown \<Rightarrow>
     (case lookup ''kw'' (g_kw g) of Inl e \<Rightarrow> Inl e | Inr kw \<Rightarrow>
     (case lookup ''km'' (g_km g) of Inl e \<Rightarrow> Inl e | Inr km \<Rightarrow>
     (case lookup ''kant'' (g_kant g) of Inl e \<Rightarrow> Inl e | Inr kant \<Rightarrow>
        Inr \<lparr> l_n = p_n a, l_cab = p_cab a, l_car = p_car a, l_cbrown = p_cbrown a,
              l_cw = p_cw a, l_cm = p_cm a, l_ant = p_ant a,
              l_prospect_version = p_prospect_version a,
              l_nr = nr, l_kab = kab, l_kcar = kcar, l_kbrown = kbrown, l_kw = kw,
              l_km = km, l_kant = kant, l_alpha = p_alpha a \<rparr>)))))))"

text \<open>Lines 83 to 107: everything before the call of \<^verbatim>\<open>sail\<close> at line 109.\<close>

definition prosail_inputs ::
  "globals \<Rightarrow> run_prosail_args \<Rightarrow> error + (string \<times> sail_args)" where
  "prosail_inputs g a =
     (case prosail_soil g a of
        Inl e \<Rightarrow> Inl e
      | Inr (factor, rsoil0) \<Rightarrow>
          (case prospect_inputs g a of
             Inl e \<Rightarrow> Inl e
           | Inr la \<Rightarrow>
               (case g_run_prospect g la of
                  Inl e \<Rightarrow> Inl e
                | Inr (wv, leaf_refl, leaf_trans) \<Rightarrow>
                    Inr (factor,
                         \<lparr> c_refl = leaf_refl, c_trans = leaf_trans, c_lai = p_lai a,
                           c_lidfa = p_lidfa a, c_lidfb = p_lidfb a, c_rsoil0 = rsoil0,
                           c_hspot = p_hspot a, c_tts = p_tts a, c_tto = p_tto a,
                           c_psi = p_psi a, c_typelidf = p_typelidf a \<rparr>))))"

definition run_prosail :: "globals \<Rightarrow> run_prosail_args \<Rightarrow> error + retval" where
  "run_prosail g a =
     (case prosail_inputs g a of
        Inl e \<Rightarrow> Inl e
      | Inr (factor, ca) \<Rightarrow> call_sail g factor ca)"

subsection \<open>Concrete inputs\<close>

text \<open>
  Inputs on which the theorems below are instantiated. \<open>flat v\<close> is the constant
  spectrum of 2101 values. \<open>echo_canopy\<close> and \<open>constant_leaf\<close> are stand-ins for the two
  physical models, not models of them: the first returns its three spectral arguments
  as rows 0 to 2, so that row 0 shows the soil background it was called with; the
  second returns constant leaf optics. \<open>example_globals\<close> binds every name;
  \<open>sail_example\<close> and \<open>prosail_example\<close> are calls with the required arguments only,
  every optional argument at its default.
\<close>

definition flat :: "real \<Rightarrow> spectrum" where
  "flat v = replicate 2101 v"

definition echo_canopy :: "sail_args \<Rightarrow> error + spectrum list" where
  "echo_canopy ca = Inr [c_rsoil0 ca, c_refl ca, c_trans ca, flat (c_lai ca)]"

definition constant_leaf :: "prospect_args \<Rightarrow> error + (spectrum \<times> spectrum \<times> spectrum)" where
  "constant_leaf la = Inr (flat 0, flat (5 / 100), flat (4 / 100))"

definition example_globals :: globals where
  "example_globals =
     \<lparr> g_run_prospect = constant_leaf, g_sail = Some echo_canopy,
       g_spectral_libs = Some \<lparr> rsoil1 = flat (3 / 10), rsoil2 = flat (1 / 10) \<rparr>,
       g_nr = Some (flat 1), g_kab = Some (flat 0), g_kcar = Some (flat 0),
       g_kbrown = Some (flat 0), g_kw = Some (flat 0), g_km = Some (flat 0),
       g_kant = Some (flat 0) \<rparr>"

definition sail_example :: run_sail_args where
  "sail_example =
     \<lparr> s_refl = flat (5 / 100), s_trans = flat (4 / 100), s_lai = 3, s_lidfa = 50,
       s_hspot = 1 / 100, s_tts = 30, s_tto = 0, s_psi = 0,
       s_typelidf = 2, s_lidfb = 0, s_factor = ''SDR'',
       s_rsoil0 = None, s_rsoil = None, s_psoil = None,
       s_soil_spectrum1 = None, s_soil_spectrum2 = None \<rparr>"

definition prosail_example :: run_prosail_args where
  "prosail_example =
     \<lparr> p_n = 3 / 2, p_cab = 40, p_car = 8, p_cbrown = 0, p_cw = 1 / 100, p_cm = 9 / 1000,
       p_lai = 3, p_lidfa = 50, p_hspot = 1 / 100, p_tts = 30, p_tto = 0, p_psi = 0,
       p_ant = 0, p_alpha = 40, p_prospect_version = ''5'',
       p_typelidf = 2, p_lidfb = 0, p_factor = ''SDR'',
       p_rsoil0 = None, p_rsoil = None, p_psoil = None,
       p_soil_spectrum1 = None, p_soil_spectrum2 = None \<rparr>"

text \<open>
  Calls in which the soil background is supplied directly and both component spectra
  are well formed, for a given factor, and the arguments with which these calls reach
  \<^verbatim>\<open>sail\<close> under \<open>example_globals\<close>.
\<close>

definition sail_call :: "string \<Rightarrow> run_sail_args" where
  "sail_call factor =
     sail_example\<lparr> s_factor := factor, s_rsoil0 := Some (flat (1 / 5)),
       s_soil_spectrum1 := Some (flat (3 / 10)), s_soil_spectrum2 := Some (flat (1 / 10)) \<rparr>"

definition prosail_call :: "string \<Rightarrow> run_prosail_args" where
  "prosail_call factor =
     prosail_example\<lparr> p_factor := factor, p_rsoil0 := Some (flat (1 / 5)),
       p_soil_spectrum1 := Some (flat (3 / 10)), p_soil_spectrum2 := Some (flat (1 / 10)) \<rparr>"

definition example_sail_args :: sail_args where
  "example_sail_args =
     \<lparr> c_refl = flat (5 / 100), c_trans = flat (4 / 100), c_lai = 3, c_lidfa = 50,
       c_lidfb = 0, c_rsoil0 = flat (1 / 5), c_hspot = 1 / 100, c_tts = 30, c_tto = 0,
       c_psi = 0, c_typelidf = 2 \<rparr>"

text \<open>Two spectra of 2101 values that differ from each other and along the wavelengths.\<close>

definition dry_soil :: spectrum where
  "dry_soil = (2 / 5) # replicate 2100 (1 / 5)"

definition wet_soil :: spectrum where
  "wet_soil = replicate 2100 (1 / 10) @ [3 / 10]"

section \<open>Properties\<close>

subsection \<open>The selector check\<close>

lemma check_factor_bad:
  "upper f \<notin> set factors \<Longrightarrow> check_factor f = Inl (ValueError factor_msg)"
  by (simp add: check_factor_def Let_def)

lemma check_factor_ok:
  "upper f \<in> set factors \<Longrightarrow> check_factor f = Inr (upper f)"
  by (simp add: check_factor_def Let_def)

lemma upper_examples:
  "upper ''sdr'' = ''SDR''" "upper ''bhr'' = ''BHR''" "upper ''dhr'' = ''DHR''"
  "upper ''hdr'' = ''HDR''" "upper ''all'' = ''ALL''" "upper ''SDR'' = ''SDR''"
  "upper ''ALL'' = ''ALL''"
  by (simp_all add: upper_def upper_char_def)




subsection \<open>The length check of the soil spectra\<close>

lemma resolve_spectra_supplied:
  "length s1 = 2101 \<Longrightarrow> resolve_spectra g (Some s1) (Some s2) = Inr (s1, s2)"
  by (simp add: resolve_spectra_def resolve_spectrum1_def resolve_spectrum2_def)

lemma resolve_spectra_malformed1:
  "length s1 \<noteq> 2101 \<Longrightarrow> resolve_spectra g (Some s1) ss2 = Inl AssertionError"
  by (simp add: resolve_spectra_def resolve_spectrum1_def)

lemma length_flat: "length (flat v) = 2101"
  by (simp add: flat_def)

text \<open>
  Claim C1, as amended. The only length the code reads is that of \<^verbatim>\<open>soil_spectrum1\<close>.
  When \<^verbatim>\<open>soil_spectrum1\<close> is supplied and does not have 2101 elements, \<^verbatim>\<open>run_sail\<close> and
  \<^verbatim>\<open>run_prosail\<close> fail for every namespace and whatever the other arguments are, so
  before any mixing and before either physical model is called: with the bare
  \<^verbatim>\<open>AssertionError\<close> when the factor is valid, and with the \<^verbatim>\<open>ValueError\<close> of the
  selector check, which comes first, otherwise.
\<close>

theorem malformed_spectrum1_rejected:
  "(s_soil_spectrum1 a = Some sp \<and> length sp \<noteq> 2101 \<longrightarrow>
      run_sail g a =
        Inl (if upper (s_factor a) \<in> set factors then AssertionError else ValueError factor_msg)) \<and>
   (p_soil_spectrum1 b = Some tp \<and> length tp \<noteq> 2101 \<longrightarrow>
      run_prosail g b =
        Inl (if upper (p_factor b) \<in> set factors then AssertionError else ValueError factor_msg))"
  by (simp add: run_sail_def sail_inputs_def run_prosail_def prosail_inputs_def
      prosail_soil_def check_factor_bad check_factor_ok resolve_spectra_malformed1)

theorem malformed_spectrum1_rejected_witness:
  "run_sail example_globals
     (sail_example\<lparr>s_rsoil := Some 1, s_psoil := Some (1 / 2),
        s_soil_spectrum1 := Some (replicate 2100 (3 / 10)),
        s_soil_spectrum2 := Some (flat (1 / 10))\<rparr>) = Inl AssertionError \<and>
   run_prosail example_globals
     (prosail_example\<lparr>p_rsoil := Some 1, p_psoil := Some (1 / 2),
        p_soil_spectrum1 := Some (replicate 2100 (3 / 10)),
        p_soil_spectrum2 := Some (flat (1 / 10))\<rparr>) = Inl AssertionError"
  using malformed_spectrum1_rejected [where g = example_globals
      and sp = "replicate 2100 (3 / 10)" and tp = "replicate 2100 (3 / 10)"
      and a = "sail_example\<lparr>s_rsoil := Some 1, s_psoil := Some (1 / 2),
        s_soil_spectrum1 := Some (replicate 2100 (3 / 10)),
        s_soil_spectrum2 := Some (flat (1 / 10))\<rparr>"
      and b = "prosail_example\<lparr>p_rsoil := Some 1, p_psoil := Some (1 / 2),
        p_soil_spectrum1 := Some (replicate 2100 (3 / 10)),
        p_soil_spectrum2 := Some (flat (1 / 10))\<rparr>"]
  by (simp add: sail_example_def prosail_example_def upper_def upper_char_def factors_def)

text \<open>
  Claim C1 as stated fails. A precomputed \<^verbatim>\<open>rsoil0\<close> of one element, with both
  component spectra well formed, is not rejected: with a canopy model bound the call
  returns, and in the namespace of the module it gets as far as the lookup of \<^verbatim>\<open>sail\<close>
  at line 207. A \<^verbatim>\<open>soil_spectrum2\<close> of 2100 elements is not rejected either.
\<close>

theorem unchecked_spectra_counterexample:
  "length [1 / 2 :: real] \<noteq> 2101 \<and>
   run_sail example_globals
     (sail_example\<lparr>s_rsoil0 := Some [1 / 2],
        s_soil_spectrum1 := Some (flat (3 / 10)),
        s_soil_spectrum2 := Some (flat (1 / 10))\<rparr>) = Inr (Row [1 / 2]) \<and>
   run_sail (module_globals constant_leaf)
     (sail_example\<lparr>s_rsoil0 := Some [1 / 2],
        s_soil_spectrum1 := Some (flat (3 / 10)),
        s_soil_spectrum2 := Some (flat (1 / 10))\<rparr>) = Inl (NameError ''sail'') \<and>
   length (replicate 2100 (1 / 10 :: real)) \<noteq> 2101 \<and>
   run_sail example_globals
     (sail_example\<lparr>s_rsoil0 := Some (flat (1 / 5)),
        s_soil_spectrum1 := Some (flat (3 / 10)),
        s_soil_spectrum2 := Some (replicate 2100 (1 / 10))\<rparr>) = Inr (Row (flat (1 / 5)))"
  by (simp add: run_sail_def sail_inputs_def check_factor_def upper_def upper_char_def
      factors_def sail_example_def resolve_spectra_supplied length_flat resolve_rsoil0_def
      call_sail_def lookup_def example_globals_def module_globals_def echo_canopy_def
      select_factor_def row_def)

text \<open>
  With \<^verbatim>\<open>rsoil0\<close> not supplied, a \<^verbatim>\<open>soil_spectrum2\<close> of 2100 elements passes lines 196 and
  197 and the call fails inside the mixture of line 205, with numpy's error.
\<close>

lemma short_spectrum2_fails_in_mixture:
  "run_sail example_globals
     (sail_example\<lparr>s_rsoil := Some 1, s_psoil := Some (1 / 2),
        s_soil_spectrum1 := Some (flat (3 / 10)),
        s_soil_spectrum2 := Some (replicate 2100 (1 / 10))\<rparr>) =
   Inl (ValueError
     ''operands could not be broadcast together with shapes (2101,) (2100,) '')"
  by (simp add: run_sail_def sail_inputs_def check_factor_def upper_def upper_char_def
      factors_def sail_example_def resolve_spectra_supplied length_flat resolve_rsoil0_def
      soil_mix_def np_add_def np_scale_def broadcast_msg_def shape_def decimal.simps flat_def)

subsection \<open>An underspecified soil\<close>

lemma resolve_rsoil0_underspecified:
  "rs = None \<or> ps = None \<Longrightarrow> resolve_rsoil0 msg None rs ps s1 s2 = Inl (ValueError msg)"
  by (auto simp add: resolve_rsoil0_def split: option.splits)

lemma sail_inputs_underspecified:
  "s_rsoil0 a = None \<Longrightarrow> s_rsoil a = None \<or> s_psoil a = None \<Longrightarrow>
   sail_inputs g a =
     (case check_factor (s_factor a) of
        Inl e \<Rightarrow> Inl e
      | Inr F \<Rightarrow>
          (case resolve_spectra g (s_soil_spectrum1 a) (s_soil_spectrum2 a) of
             Inl e \<Rightarrow> Inl e
           | Inr p \<Rightarrow> Inl (ValueError sail_soil_msg)))"
  by (simp add: sail_inputs_def resolve_rsoil0_underspecified split: sum.splits prod.splits)

lemma prosail_soil_underspecified:
  "p_rsoil0 b = None \<Longrightarrow> p_rsoil b = None \<or> p_psoil b = None \<Longrightarrow>
   prosail_soil g b =
     (case check_factor (p_factor b) of
        Inl e \<Rightarrow> Inl e
      | Inr F \<Rightarrow>
          (case resolve_spectra g (p_soil_spectrum1 b) (p_soil_spectrum2 b) of
             Inl e \<Rightarrow> Inl e
           | Inr p \<Rightarrow> Inl (ValueError prosail_soil_msg)))"
  by (simp add: prosail_soil_def resolve_rsoil0_underspecified split: sum.splits prod.splits)

text \<open>
  Claim C3, as amended. When \<^verbatim>\<open>rsoil0\<close> is not supplied and \<^verbatim>\<open>rsoil\<close> or \<^verbatim>\<open>psoil\<close> is not
  supplied, the call fails for every namespace, so before any mixing and before either
  physical model is called. When moreover the factor is valid and the two component
  spectra pass lines 191 to 199 (87 to 95), the failure is the \<^verbatim>\<open>ValueError\<close> of lines
  203 (99), which is not the \<^verbatim>\<open>AssertionError\<close> of the length check.
\<close>

theorem underspecified_soil_rejected:
  "(s_rsoil0 a = None \<and> (s_rsoil a = None \<or> s_psoil a = None) \<longrightarrow>
      (\<exists>e. run_sail g a = Inl e) \<and>
      (upper (s_factor a) \<in> set factors \<and>
       resolve_spectra g (s_soil_spectrum1 a) (s_soil_spectrum2 a) = Inr sp \<longrightarrow>
         run_sail g a = Inl (ValueError sail_soil_msg))) \<and>
   (p_rsoil0 b = None \<and> (p_rsoil b = None \<or> p_psoil b = None) \<longrightarrow>
      (\<exists>e. run_prosail g b = Inl e) \<and>
      (upper (p_factor b) \<in> set factors \<and>
       resolve_spectra g (p_soil_spectrum1 b) (p_soil_spectrum2 b) = Inr tp \<longrightarrow>
         run_prosail g b = Inl (ValueError prosail_soil_msg))) \<and>
   ValueError sail_soil_msg \<noteq> AssertionError \<and>
   ValueError prosail_soil_msg \<noteq> AssertionError"
  by (auto simp add: run_sail_def run_prosail_def prosail_inputs_def
      sail_inputs_underspecified prosail_soil_underspecified check_factor_ok
      split: sum.splits)

theorem underspecified_soil_rejected_witness:
  "run_sail example_globals (sail_example\<lparr>s_rsoil := Some 1\<rparr>) =
     Inl (ValueError sail_soil_msg) \<and>
   run_prosail example_globals (prosail_example\<lparr>p_psoil := Some (1 / 2)\<rparr>) =
     Inl (ValueError prosail_soil_msg)"
  using underspecified_soil_rejected [where g = example_globals
      and a = "sail_example\<lparr>s_rsoil := Some 1\<rparr>"
      and b = "prosail_example\<lparr>p_psoil := Some (1 / 2)\<rparr>"
      and sp = "(flat (3 / 10), flat (1 / 10))" and tp = "(flat (3 / 10), flat (1 / 10))"]
  by (simp add: sail_example_def prosail_example_def upper_def upper_char_def factors_def
      example_globals_def resolve_spectra_def resolve_spectrum1_def resolve_spectrum2_def
      lookup_def)

text \<open>
  Claim C3 as stated fails: neither \<^verbatim>\<open>rsoil0\<close> nor \<^verbatim>\<open>rsoil\<close> is supplied, and the call
  fails with the \<^verbatim>\<open>AssertionError\<close> of the length check, which comes first.
\<close>

theorem underspecified_soil_counterexample:
  "s_rsoil0 (sail_example\<lparr>s_soil_spectrum1 := Some (replicate 2100 (3 / 10))\<rparr>) = None \<and>
   s_rsoil (sail_example\<lparr>s_soil_spectrum1 := Some (replicate 2100 (3 / 10))\<rparr>) = None \<and>
   run_sail example_globals (sail_example\<lparr>s_soil_spectrum1 := Some (replicate 2100 (3 / 10))\<rparr>) =
     Inl AssertionError"
  by (simp add: run_sail_def sail_inputs_def check_factor_def upper_def upper_char_def
      factors_def sail_example_def resolve_spectra_malformed1)

subsection \<open>The soil background\<close>

lemma soil_mix_same_length:
  "length s1 = length s2 \<Longrightarrow>
   soil_mix r p s1 s2 = Inr (map2 (\<lambda>x y. r * (p * x + (1 - p) * y)) s1 s2)"
  by (simp add: soil_mix_def np_add_def np_scale_def list_eq_iff_nth_eq)

lemma resolve_rsoil0_mix:
  "length s1 = length s2 \<Longrightarrow>
   resolve_rsoil0 msg None (Some r) (Some p) s1 s2 =
     Inr (map2 (\<lambda>x y. r * (p * x + (1 - p) * y)) s1 s2)"
  by (simp add: resolve_rsoil0_def soil_mix_same_length)

lemma sail_inputs_background:
  "sail_inputs g a = Inr (F, ca) \<Longrightarrow>
   \<exists>s1 s2. resolve_spectra g (s_soil_spectrum1 a) (s_soil_spectrum2 a) = Inr (s1, s2) \<and>
     resolve_rsoil0 sail_soil_msg (s_rsoil0 a) (s_rsoil a) (s_psoil a) s1 s2 = Inr (c_rsoil0 ca)"
  by (auto simp add: sail_inputs_def split: sum.splits prod.splits)

lemma prosail_soil_background:
  "prosail_soil g b = Inr (F, r0) \<Longrightarrow>
   \<exists>s1 s2. resolve_spectra g (p_soil_spectrum1 b) (p_soil_spectrum2 b) = Inr (s1, s2) \<and>
     resolve_rsoil0 prosail_soil_msg (p_rsoil0 b) (p_rsoil b) (p_psoil b) s1 s2 = Inr r0"
  by (auto simp add: prosail_soil_def split: sum.splits prod.splits)

lemma prosail_inputs_background:
  "prosail_inputs g b = Inr (F, ca) \<Longrightarrow> prosail_soil g b = Inr (F, c_rsoil0 ca)"
  by (auto simp add: prosail_inputs_def split: sum.splits prod.splits)

lemma sail_background_mixture:
  assumes "s_rsoil0 a = None" "s_rsoil a = Some r" "s_psoil a = Some p"
    and "resolve_spectra g (s_soil_spectrum1 a) (s_soil_spectrum2 a) = Inr (s1, s2)"
    and "length s1 = length s2"
    and "sail_inputs g a = Inr (F, ca)"
  shows "c_rsoil0 ca = map2 (\<lambda>x y. r * (p * x + (1 - p) * y)) s1 s2"
  using sail_inputs_background [OF assms(6)] assms(1-5)
  by (auto simp add: resolve_rsoil0_mix)

lemma prosail_background_mixture:
  assumes "p_rsoil0 b = None" "p_rsoil b = Some r" "p_psoil b = Some p"
    and "resolve_spectra g (p_soil_spectrum1 b) (p_soil_spectrum2 b) = Inr (s1, s2)"
    and "length s1 = length s2"
    and "prosail_inputs g b = Inr (F, ca)"
  shows "c_rsoil0 ca = map2 (\<lambda>x y. r * (p * x + (1 - p) * y)) s1 s2"
  using prosail_soil_background [OF prosail_inputs_background [OF assms(6)]] assms(1-5)
  by (auto simp add: resolve_rsoil0_mix)

lemma run_sail_mixture:
  assumes "s_rsoil0 a = None" "s_rsoil a = Some r" "s_psoil a = Some p"
    and "resolve_spectra g (s_soil_spectrum1 a) (s_soil_spectrum2 a) = Inr (s1, s2)"
    and "length s1 = length s2"
    and "upper (s_factor a) \<in> set factors"
    and "g_sail g = Some c"
  shows "run_sail g a =
     (case c \<lparr> c_refl = s_refl a, c_trans = s_trans a, c_lai = s_lai a,
                c_lidfa = s_lidfa a, c_lidfb = s_lidfb a,
                c_rsoil0 = map2 (\<lambda>x y. r * (p * x + (1 - p) * y)) s1 s2,
                c_hspot = s_hspot a, c_tts = s_tts a, c_tto = s_tto a,
                c_psi = s_psi a, c_typelidf = s_typelidf a \<rparr> of
        Inl e \<Rightarrow> Inl e
      | Inr rho \<Rightarrow> select_factor (upper (s_factor a)) rho)"
  using assms
  by (simp add: run_sail_def sail_inputs_def check_factor_ok resolve_rsoil0_mix
      call_sail_def lookup_def)

lemma run_prosail_mixture:
  assumes "p_rsoil0 b = None" "p_rsoil b = Some r" "p_psoil b = Some p"
    and "resolve_spectra g (p_soil_spectrum1 b) (p_soil_spectrum2 b) = Inr (s1, s2)"
    and "length s1 = length s2"
    and "upper (p_factor b) \<in> set factors"
    and "prospect_inputs g b = Inr la" "g_run_prospect g la = Inr (wv, lr, lt)"
    and "g_sail g = Some c"
  shows "run_prosail g b =
     (case c \<lparr> c_refl = lr, c_trans = lt, c_lai = p_lai b,
                c_lidfa = p_lidfa b, c_lidfb = p_lidfb b,
                c_rsoil0 = map2 (\<lambda>x y. r * (p * x + (1 - p) * y)) s1 s2,
                c_hspot = p_hspot b, c_tts = p_tts b, c_tto = p_tto b,
                c_psi = p_psi b, c_typelidf = p_typelidf b \<rparr> of
        Inl e \<Rightarrow> Inl e
      | Inr rho \<Rightarrow> select_factor (upper (p_factor b)) rho)"
  using assms
  by (simp add: run_prosail_def prosail_inputs_def prosail_soil_def check_factor_ok
      resolve_rsoil0_mix call_sail_def lookup_def)

lemma mixture_elementwise:
  "length s1 = n \<Longrightarrow> length s2 = n \<Longrightarrow>
   length (map2 (\<lambda>x y. r * (p * x + (1 - p) * y)) s1 s2) = n \<and>
   (\<forall>i<n. map2 (\<lambda>x y. r * (p * x + (1 - p) * y)) s1 s2 ! i
             = r * (p * s1 ! i + (1 - p) * s2 ! i))"
  by simp

text \<open>
  Claim C4. Let \<^verbatim>\<open>rsoil0\<close> be not supplied, \<^verbatim>\<open>rsoil\<close> and \<^verbatim>\<open>psoil\<close> be supplied, and the two
  component spectra resolve (supplied and checked, or read from \<^verbatim>\<open>spectral_libs\<close>) to
  arrays \<open>sp\<close> and \<open>sq\<close> of 2101 elements. With a valid factor and a canopy model \<open>c\<close>
  bound to \<^verbatim>\<open>sail\<close>, \<^verbatim>\<open>run_sail\<close> is the application of \<open>c\<close> to the arguments of line 207,
  of which the sixth is an array \<open>m\<close> of 2101 elements with
  \<open>m ! i = rsoil * (psoil * sp ! i + (1 - psoil) * sq ! i)\<close> for every \<open>i\<close>, followed by the
  selection. The same holds for \<^verbatim>\<open>run_prosail\<close> when the seven tables are bound and the
  leaf model returns. In any namespace, a call that gets to line 207 (109) has this
  array as sixth argument.
\<close>

theorem soil_background_is_mixture:
  "(s_rsoil0 a = None \<and> s_rsoil a = Some r \<and> s_psoil a = Some p \<and>
    resolve_spectra g (s_soil_spectrum1 a) (s_soil_spectrum2 a) = Inr (sp, sq) \<and>
    length sp = 2101 \<and> length sq = 2101 \<and>
    upper (s_factor a) \<in> set factors \<and> g_sail g = Some c \<longrightarrow>
      (\<exists>m. length m = 2101 \<and>
           (\<forall>i<2101. m ! i = r * (p * sp ! i + (1 - p) * sq ! i)) \<and>
           run_sail g a =
             (case c \<lparr> c_refl = s_refl a, c_trans = s_trans a, c_lai = s_lai a,
                        c_lidfa = s_lidfa a, c_lidfb = s_lidfb a, c_rsoil0 = m,
                        c_hspot = s_hspot a, c_tts = s_tts a, c_tto = s_tto a,
                        c_psi = s_psi a, c_typelidf = s_typelidf a \<rparr> of
                Inl e \<Rightarrow> Inl e
              | Inr rho \<Rightarrow> select_factor (upper (s_factor a)) rho))) \<and>
   (p_rsoil0 b = None \<and> p_rsoil b = Some r \<and> p_psoil b = Some p \<and>
    resolve_spectra g (p_soil_spectrum1 b) (p_soil_spectrum2 b) = Inr (sp, sq) \<and>
    length sp = 2101 \<and> length sq = 2101 \<and>
    upper (p_factor b) \<in> set factors \<and> prospect_inputs g b = Inr la \<and>
    g_run_prospect g la = Inr (wv, lr, lt) \<and> g_sail g = Some c \<longrightarrow>
      (\<exists>m. length m = 2101 \<and>
           (\<forall>i<2101. m ! i = r * (p * sp ! i + (1 - p) * sq ! i)) \<and>
           run_prosail g b =
             (case c \<lparr> c_refl = lr, c_trans = lt, c_lai = p_lai b,
                        c_lidfa = p_lidfa b, c_lidfb = p_lidfb b, c_rsoil0 = m,
                        c_hspot = p_hspot b, c_tts = p_tts b, c_tto = p_tto b,
                        c_psi = p_psi b, c_typelidf = p_typelidf b \<rparr> of
                Inl e \<Rightarrow> Inl e
              | Inr rho \<Rightarrow> select_factor (upper (p_factor b)) rho))) \<and>
   (s_rsoil0 a = None \<and> s_rsoil a = Some r \<and> s_psoil a = Some p \<and>
    resolve_spectra g (s_soil_spectrum1 a) (s_soil_spectrum2 a) = Inr (sp, sq) \<and>
    length sp = 2101 \<and> length sq = 2101 \<and> sail_inputs g a = Inr (F, ca) \<longrightarrow>
      length (c_rsoil0 ca) = 2101 \<and>
      (\<forall>i<2101. c_rsoil0 ca ! i = r * (p * sp ! i + (1 - p) * sq ! i))) \<and>
   (p_rsoil0 b = None \<and> p_rsoil b = Some r \<and> p_psoil b = Some p \<and>
    resolve_spectra g (p_soil_spectrum1 b) (p_soil_spectrum2 b) = Inr (sp, sq) \<and>
    length sp = 2101 \<and> length sq = 2101 \<and> prosail_inputs g b = Inr (F, cb) \<longrightarrow>
      length (c_rsoil0 cb) = 2101 \<and>
      (\<forall>i<2101. c_rsoil0 cb ! i = r * (p * sp ! i + (1 - p) * sq ! i)))"
proof -
  let ?m = "map2 (\<lambda>x y. r * (p * x + (1 - p) * y)) sp sq"
  have el: "length ?m = 2101 \<and> (\<forall>i<2101. ?m ! i = r * (p * sp ! i + (1 - p) * sq ! i))"
    if "length sp = 2101" "length sq = 2101"
    using mixture_elementwise [OF that] .
  have sail: "\<exists>m. length m = 2101 \<and>
           (\<forall>i<2101. m ! i = r * (p * sp ! i + (1 - p) * sq ! i)) \<and>
           run_sail g a =
             (case c \<lparr> c_refl = s_refl a, c_trans = s_trans a, c_lai = s_lai a,
                        c_lidfa = s_lidfa a, c_lidfb = s_lidfb a, c_rsoil0 = m,
                        c_hspot = s_hspot a, c_tts = s_tts a, c_tto = s_tto a,
                        c_psi = s_psi a, c_typelidf = s_typelidf a \<rparr> of
                Inl e \<Rightarrow> Inl e
              | Inr rho \<Rightarrow> select_factor (upper (s_factor a)) rho)"
    if "s_rsoil0 a = None" "s_rsoil a = Some r" "s_psoil a = Some p"
      "resolve_spectra g (s_soil_spectrum1 a) (s_soil_spectrum2 a) = Inr (sp, sq)"
      "length sp = 2101" "length sq = 2101"
      "upper (s_factor a) \<in> set factors" "g_sail g = Some c"
    using run_sail_mixture [of a r p g sp sq c] el that
    by (intro exI [of _ ?m]) simp
  have prosail: "\<exists>m. length m = 2101 \<and>
           (\<forall>i<2101. m ! i = r * (p * sp ! i + (1 - p) * sq ! i)) \<and>
           run_prosail g b =
             (case c \<lparr> c_refl = lr, c_trans = lt, c_lai = p_lai b,
                        c_lidfa = p_lidfa b, c_lidfb = p_lidfb b, c_rsoil0 = m,
                        c_hspot = p_hspot b, c_tts = p_tts b, c_tto = p_tto b,
                        c_psi = p_psi b, c_typelidf = p_typelidf b \<rparr> of
                Inl e \<Rightarrow> Inl e
              | Inr rho \<Rightarrow> select_factor (upper (p_factor b)) rho)"
    if "p_rsoil0 b = None" "p_rsoil b = Some r" "p_psoil b = Some p"
      "resolve_spectra g (p_soil_spectrum1 b) (p_soil_spectrum2 b) = Inr (sp, sq)"
      "length sp = 2101" "length sq = 2101"
      "upper (p_factor b) \<in> set factors" "prospect_inputs g b = Inr la"
      "g_run_prospect g la = Inr (wv, lr, lt)" "g_sail g = Some c"
    using run_prosail_mixture [of b r p g sp sq la wv lr lt c] el that
    by (intro exI [of _ ?m]) simp
  have reach: "length (c_rsoil0 ca) = 2101 \<and>
      (\<forall>i<2101. c_rsoil0 ca ! i = r * (p * sp ! i + (1 - p) * sq ! i))"
    if "s_rsoil0 a = None" "s_rsoil a = Some r" "s_psoil a = Some p"
      "resolve_spectra g (s_soil_spectrum1 a) (s_soil_spectrum2 a) = Inr (sp, sq)"
      "length sp = 2101" "length sq = 2101" "sail_inputs g a = Inr (F, ca)"
    using sail_background_mixture [of a r p g sp sq F ca] el that by simp
  have preach: "length (c_rsoil0 cb) = 2101 \<and>
      (\<forall>i<2101. c_rsoil0 cb ! i = r * (p * sp ! i + (1 - p) * sq ! i))"
    if "p_rsoil0 b = None" "p_rsoil b = Some r" "p_psoil b = Some p"
      "resolve_spectra g (p_soil_spectrum1 b) (p_soil_spectrum2 b) = Inr (sp, sq)"
      "length sp = 2101" "length sq = 2101" "prosail_inputs g b = Inr (F, cb)"
    using prosail_background_mixture [of b r p g sp sq F cb] el that by simp
  show ?thesis
    using sail prosail reach preach by blast
qed

lemma length_example_soils: "length dry_soil = 2101" "length wet_soil = 2101"
  by (simp_all add: dry_soil_def wet_soil_def)

lemma example_soils_nth:
  "dry_soil ! 0 = 2 / 5" "dry_soil ! 1000 = 1 / 5" "dry_soil ! 2100 = 1 / 5"
  "wet_soil ! 0 = 1 / 10" "wet_soil ! 1000 = 1 / 10" "wet_soil ! 2100 = 3 / 10"
  by (simp_all add: dry_soil_def wet_soil_def nth_append)

theorem soil_background_is_mixture_witness:
  "(\<exists>m. run_sail example_globals
          (sail_example\<lparr>s_rsoil := Some 2, s_psoil := Some (1 / 4),
             s_soil_spectrum1 := Some dry_soil, s_soil_spectrum2 := Some wet_soil\<rparr>) =
            Inr (Row m) \<and>
        length m = 2101 \<and> m ! 0 = 7 / 20 \<and> m ! 1000 = 1 / 4 \<and> m ! 2100 = 11 / 20) \<and>
   (\<exists>m. run_prosail example_globals
          (prosail_example\<lparr>p_rsoil := Some 2, p_psoil := Some (1 / 4),
             p_soil_spectrum1 := Some dry_soil, p_soil_spectrum2 := Some wet_soil\<rparr>) =
            Inr (Row m) \<and>
        length m = 2101 \<and> m ! 0 = 7 / 20 \<and> m ! 1000 = 1 / 4 \<and> m ! 2100 = 11 / 20)"
proof -
  note inst = soil_background_is_mixture [where g = example_globals and r = 2 and p = "1 / 4"
      and sp = dry_soil and sq = wet_soil and c = echo_canopy
      and la = "\<lparr> l_n = 3 / 2, l_cab = 40, l_car = 8, l_cbrown = 0, l_cw = 1 / 100,
          l_cm = 9 / 1000, l_ant = 0, l_prospect_version = ''5'', l_nr = flat 1,
          l_kab = flat 0, l_kcar = flat 0, l_kbrown = flat 0, l_kw = flat 0, l_km = flat 0,
          l_kant = flat 0, l_alpha = 40 \<rparr>"
      and wv = "flat 0" and lr = "flat (5 / 100)" and lt = "flat (4 / 100)"
      and a = "sail_example\<lparr>s_rsoil := Some 2, s_psoil := Some (1 / 4),
             s_soil_spectrum1 := Some dry_soil, s_soil_spectrum2 := Some wet_soil\<rparr>"
      and b = "prosail_example\<lparr>p_rsoil := Some 2, p_psoil := Some (1 / 4),
             p_soil_spectrum1 := Some dry_soil, p_soil_spectrum2 := Some wet_soil\<rparr>"]
  have sail: "\<exists>m. length m = 2101 \<and>
      (\<forall>i<2101. m ! i = 2 * (1 / 4 * dry_soil ! i + (1 - 1 / 4) * wet_soil ! i)) \<and>
      run_sail example_globals
          (sail_example\<lparr>s_rsoil := Some 2, s_psoil := Some (1 / 4),
             s_soil_spectrum1 := Some dry_soil, s_soil_spectrum2 := Some wet_soil\<rparr>) =
            Inr (Row m)"
    using inst
    by (simp add: sail_example_def upper_examples factors_def resolve_spectra_supplied
        length_example_soils example_globals_def echo_canopy_def select_factor_def row_def)
  have prosail: "\<exists>m. length m = 2101 \<and>
      (\<forall>i<2101. m ! i = 2 * (1 / 4 * dry_soil ! i + (1 - 1 / 4) * wet_soil ! i)) \<and>
      run_prosail example_globals
          (prosail_example\<lparr>p_rsoil := Some 2, p_psoil := Some (1 / 4),
             p_soil_spectrum1 := Some dry_soil, p_soil_spectrum2 := Some wet_soil\<rparr>) =
            Inr (Row m)"
    using inst
    by (simp add: prosail_example_def upper_examples factors_def resolve_spectra_supplied
        length_example_soils example_globals_def echo_canopy_def select_factor_def row_def
        prospect_inputs_def lookup_def constant_leaf_def)
  have nth: "m ! 0 = 7 / 20 \<and> m ! 1000 = 1 / 4 \<and> m ! 2100 = 11 / 20"
    if "\<forall>i<2101. m ! i = 2 * (1 / 4 * dry_soil ! i + (1 - 1 / 4) * wet_soil ! i)"
    for m :: spectrum
  proof -
    have "m ! 0 = 2 * (1 / 4 * dry_soil ! 0 + (1 - 1 / 4) * wet_soil ! 0)"
      "m ! 1000 = 2 * (1 / 4 * dry_soil ! 1000 + (1 - 1 / 4) * wet_soil ! 1000)"
      "m ! 2100 = 2 * (1 / 4 * dry_soil ! 2100 + (1 - 1 / 4) * wet_soil ! 2100)"
      using that by simp_all
    then show ?thesis
      by (simp add: example_soils_nth)
  qed
  from sail prosail nth show ?thesis
    by blast
qed

text \<open>
  Claim C5. For spectra of 2101 elements, the mixture of lines 205 and 206 with
  brightness 1 and moisture 1 is the first spectrum, and with brightness 1 and moisture
  0 it is the second; this is also what the statement \<^verbatim>\<open>if rsoil0 is None: ...\<close> yields.
  Arithmetic is that of the reals.
\<close>

theorem soil_mix_boundary:
  "length sp = 2101 \<and> length sq = 2101 \<longrightarrow>
     soil_mix 1 1 sp sq = Inr sp \<and> soil_mix 1 0 sp sq = Inr sq \<and>
     resolve_rsoil0 msg None (Some 1) (Some 1) sp sq = Inr sp \<and>
     resolve_rsoil0 msg None (Some 1) (Some 0) sp sq = Inr sq"
  by (simp add: resolve_rsoil0_def soil_mix_same_length list_eq_iff_nth_eq)

theorem soil_mix_boundary_witness:
  "soil_mix 1 1 (flat (3 / 10)) (flat (1 / 10)) = Inr (flat (3 / 10)) \<and>
   soil_mix 1 0 (flat (3 / 10)) (flat (1 / 10)) = Inr (flat (1 / 10))"
  using soil_mix_boundary [where sp = "flat (3 / 10)" and sq = "flat (1 / 10)"]
  by (simp add: length_flat)

lemma sail_inputs_precomputed:
  assumes "s_rsoil0 a = Some r0" "upper (s_factor a) \<in> set factors"
    and "resolve_spectra g (s_soil_spectrum1 a) (s_soil_spectrum2 a) = Inr sp"
  shows "sail_inputs g a =
     Inr (upper (s_factor a),
          \<lparr> c_refl = s_refl a, c_trans = s_trans a, c_lai = s_lai a,
            c_lidfa = s_lidfa a, c_lidfb = s_lidfb a, c_rsoil0 = r0,
            c_hspot = s_hspot a, c_tts = s_tts a, c_tto = s_tto a,
            c_psi = s_psi a, c_typelidf = s_typelidf a \<rparr>)"
  using assms
  by (simp add: sail_inputs_def check_factor_ok resolve_rsoil0_def split: prod.splits)

lemma prosail_soil_precomputed:
  assumes "p_rsoil0 b = Some r0" "upper (p_factor b) \<in> set factors"
    and "resolve_spectra g (p_soil_spectrum1 b) (p_soil_spectrum2 b) = Inr sp"
  shows "prosail_soil g b = Inr (upper (p_factor b), r0)"
  using assms
  by (simp add: prosail_soil_def check_factor_ok resolve_rsoil0_def split: prod.splits)

lemma resolve_rsoil0_precomputed:
  "resolve_rsoil0 msg (Some r0) rs ps s1 s2 = Inr r0"
  by (simp add: resolve_rsoil0_def)

text \<open>
  Claim C6, as amended. Let \<^verbatim>\<open>rsoil0\<close> be supplied. Then \<^verbatim>\<open>rsoil\<close> and \<^verbatim>\<open>psoil\<close> have no
  influence on anything before the call of \<^verbatim>\<open>sail\<close> (no mixture is computed). When the
  factor is valid and the component spectra pass lines 191 to 199, \<^verbatim>\<open>run_sail\<close> is the
  call of \<^verbatim>\<open>sail\<close> with \<^verbatim>\<open>rsoil0\<close> itself as sixth argument, followed by the selection.
  For \<^verbatim>\<open>run_prosail\<close>, under the same conditions the soil background is \<^verbatim>\<open>rsoil0\<close>
  itself, and whenever the function gets to the call of \<^verbatim>\<open>sail\<close> the sixth argument is
  \<^verbatim>\<open>rsoil0\<close>. With a canopy model \<open>c\<close> bound to \<^verbatim>\<open>sail\<close>, each function is the
  application of \<open>c\<close> to arguments of which the sixth is \<^verbatim>\<open>rsoil0\<close>, followed by the
  selection.
\<close>

theorem precomputed_soil_verbatim:
  "(s_rsoil0 a = Some r0 \<longrightarrow>
      sail_inputs g (a\<lparr>s_rsoil := x, s_psoil := y\<rparr>) = sail_inputs g a \<and>
      (upper (s_factor a) \<in> set factors \<and>
       resolve_spectra g (s_soil_spectrum1 a) (s_soil_spectrum2 a) = Inr sp \<longrightarrow>
         run_sail g a =
           call_sail g (upper (s_factor a))
             \<lparr> c_refl = s_refl a, c_trans = s_trans a, c_lai = s_lai a,
               c_lidfa = s_lidfa a, c_lidfb = s_lidfb a, c_rsoil0 = r0,
               c_hspot = s_hspot a, c_tts = s_tts a, c_tto = s_tto a,
               c_psi = s_psi a, c_typelidf = s_typelidf a \<rparr>)) \<and>
   (p_rsoil0 b = Some r0 \<longrightarrow>
      prosail_inputs g (b\<lparr>p_rsoil := x, p_psoil := y\<rparr>) = prosail_inputs g b \<and>
      (\<forall>F ca. prosail_inputs g b = Inr (F, ca) \<longrightarrow>
         run_prosail g b = call_sail g F ca \<and> c_rsoil0 ca = r0) \<and>
      (upper (p_factor b) \<in> set factors \<and>
       resolve_spectra g (p_soil_spectrum1 b) (p_soil_spectrum2 b) = Inr tp \<longrightarrow>
         prosail_soil g b = Inr (upper (p_factor b), r0))) \<and>
   (s_rsoil0 a = Some r0 \<and> upper (s_factor a) \<in> set factors \<and>
    resolve_spectra g (s_soil_spectrum1 a) (s_soil_spectrum2 a) = Inr sp \<and>
    g_sail g = Some c \<longrightarrow>
      run_sail g a =
        (case c \<lparr> c_refl = s_refl a, c_trans = s_trans a, c_lai = s_lai a,
                   c_lidfa = s_lidfa a, c_lidfb = s_lidfb a, c_rsoil0 = r0,
                   c_hspot = s_hspot a, c_tts = s_tts a, c_tto = s_tto a,
                   c_psi = s_psi a, c_typelidf = s_typelidf a \<rparr> of
           Inl e \<Rightarrow> Inl e
         | Inr rho \<Rightarrow> select_factor (upper (s_factor a)) rho)) \<and>
   (p_rsoil0 b = Some r0 \<and> upper (p_factor b) \<in> set factors \<and>
    resolve_spectra g (p_soil_spectrum1 b) (p_soil_spectrum2 b) = Inr tp \<and>
    prospect_inputs g b = Inr la \<and> g_run_prospect g la = Inr (wv, lr, lt) \<and>
    g_sail g = Some c \<longrightarrow>
      run_prosail g b =
        (case c \<lparr> c_refl = lr, c_trans = lt, c_lai = p_lai b,
                   c_lidfa = p_lidfa b, c_lidfb = p_lidfb b, c_rsoil0 = r0,
                   c_hspot = p_hspot b, c_tts = p_tts b, c_tto = p_tto b,
                   c_psi = p_psi b, c_typelidf = p_typelidf b \<rparr> of
           Inl e \<Rightarrow> Inl e
         | Inr rho \<Rightarrow> select_factor (upper (p_factor b)) rho))"
proof -
  have direct: "run_sail g a =
        (case c \<lparr> c_refl = s_refl a, c_trans = s_trans a, c_lai = s_lai a,
                   c_lidfa = s_lidfa a, c_lidfb = s_lidfb a, c_rsoil0 = r0,
                   c_hspot = s_hspot a, c_tts = s_tts a, c_tto = s_tto a,
                   c_psi = s_psi a, c_typelidf = s_typelidf a \<rparr> of
           Inl e \<Rightarrow> Inl e
         | Inr rho \<Rightarrow> select_factor (upper (s_factor a)) rho)"
    if "s_rsoil0 a = Some r0" "upper (s_factor a) \<in> set factors"
      "resolve_spectra g (s_soil_spectrum1 a) (s_soil_spectrum2 a) = Inr sp"
      "g_sail g = Some c"
    using sail_inputs_precomputed [OF that(1-3)] that(4)
    by (simp add: run_sail_def call_sail_def lookup_def)
  have pdirect: "run_prosail g b =
        (case c \<lparr> c_refl = lr, c_trans = lt, c_lai = p_lai b,
                   c_lidfa = p_lidfa b, c_lidfb = p_lidfb b, c_rsoil0 = r0,
                   c_hspot = p_hspot b, c_tts = p_tts b, c_tto = p_tto b,
                   c_psi = p_psi b, c_typelidf = p_typelidf b \<rparr> of
           Inl e \<Rightarrow> Inl e
         | Inr rho \<Rightarrow> select_factor (upper (p_factor b)) rho)"
    if "p_rsoil0 b = Some r0" "upper (p_factor b) \<in> set factors"
      "resolve_spectra g (p_soil_spectrum1 b) (p_soil_spectrum2 b) = Inr tp"
      "prospect_inputs g b = Inr la" "g_run_prospect g la = Inr (wv, lr, lt)"
      "g_sail g = Some c"
    using prosail_soil_precomputed [OF that(1-3)] that(4-6)
    by (simp add: run_prosail_def prosail_inputs_def call_sail_def lookup_def)
  have indep: "sail_inputs g (a\<lparr>s_rsoil := x, s_psoil := y\<rparr>) = sail_inputs g a"
    if "s_rsoil0 a = Some r0"
    using that
    by (simp add: sail_inputs_def resolve_rsoil0_precomputed split: sum.splits prod.splits)
  have pindep: "prosail_inputs g (b\<lparr>p_rsoil := x, p_psoil := y\<rparr>) = prosail_inputs g b"
    if "p_rsoil0 b = Some r0"
    using that
    by (simp add: prosail_inputs_def prosail_soil_def prospect_inputs_def
        resolve_rsoil0_precomputed split: sum.splits prod.splits)
  have passed: "run_prosail g b = call_sail g F ca \<and> c_rsoil0 ca = r0"
    if "p_rsoil0 b = Some r0" "prosail_inputs g b = Inr (F, ca)" for F ca
    using prosail_soil_background [OF prosail_inputs_background [OF that(2)]] that
    by (auto simp add: resolve_rsoil0_precomputed run_prosail_def)
  have first: "run_sail g a =
           call_sail g (upper (s_factor a))
             \<lparr> c_refl = s_refl a, c_trans = s_trans a, c_lai = s_lai a,
               c_lidfa = s_lidfa a, c_lidfb = s_lidfb a, c_rsoil0 = r0,
               c_hspot = s_hspot a, c_tts = s_tts a, c_tto = s_tto a,
               c_psi = s_psi a, c_typelidf = s_typelidf a \<rparr>"
    if "s_rsoil0 a = Some r0" "upper (s_factor a) \<in> set factors"
      "resolve_spectra g (s_soil_spectrum1 a) (s_soil_spectrum2 a) = Inr sp"
    using sail_inputs_precomputed [OF that] by (simp add: run_sail_def)
  show ?thesis
    using indep pindep passed first prosail_soil_precomputed [of b r0 g tp] direct pdirect
    by blast
qed

theorem precomputed_soil_verbatim_witness:
  "run_sail example_globals
     (sail_example\<lparr>s_rsoil0 := Some (flat (1 / 5)), s_rsoil := Some 7, s_psoil := Some 9,
        s_soil_spectrum1 := Some (flat (3 / 10)),
        s_soil_spectrum2 := Some (replicate 2100 (1 / 10))\<rparr>) =
   call_sail example_globals ''SDR''
     \<lparr> c_refl = flat (5 / 100), c_trans = flat (4 / 100), c_lai = 3, c_lidfa = 50,
       c_lidfb = 0, c_rsoil0 = flat (1 / 5), c_hspot = 1 / 100, c_tts = 30, c_tto = 0,
       c_psi = 0, c_typelidf = 2 \<rparr> \<and>
   prosail_soil example_globals
     (prosail_example\<lparr>p_rsoil0 := Some (flat (1 / 5)), p_rsoil := Some 7\<rparr>) =
   Inr (''SDR'', flat (1 / 5)) \<and>
   run_sail example_globals
     (sail_example\<lparr>s_rsoil0 := Some (flat (1 / 5)), s_rsoil := Some 7, s_psoil := Some 9,
        s_soil_spectrum1 := Some (flat (3 / 10)),
        s_soil_spectrum2 := Some (replicate 2100 (1 / 10))\<rparr>) = Inr (Row (flat (1 / 5))) \<and>
   run_prosail example_globals
     (prosail_example\<lparr>p_rsoil0 := Some (flat (1 / 5)), p_rsoil := Some 7\<rparr>) =
   Inr (Row (flat (1 / 5)))"
  using precomputed_soil_verbatim [where g = example_globals and ?r0.0 = "flat (1 / 5)"
      and sp = "(flat (3 / 10), replicate 2100 (1 / 10))"
      and tp = "(flat (3 / 10), flat (1 / 10))" and c = echo_canopy
      and la = "\<lparr> l_n = 3 / 2, l_cab = 40, l_car = 8, l_cbrown = 0, l_cw = 1 / 100,
          l_cm = 9 / 1000, l_ant = 0, l_prospect_version = ''5'', l_nr = flat 1,
          l_kab = flat 0, l_kcar = flat 0, l_kbrown = flat 0, l_kw = flat 0, l_km = flat 0,
          l_kant = flat 0, l_alpha = 40 \<rparr>"
      and wv = "flat 0" and lr = "flat (5 / 100)" and lt = "flat (4 / 100)"
      and a = "sail_example\<lparr>s_rsoil0 := Some (flat (1 / 5)), s_rsoil := Some 7,
        s_psoil := Some 9, s_soil_spectrum1 := Some (flat (3 / 10)),
        s_soil_spectrum2 := Some (replicate 2100 (1 / 10))\<rparr>"
      and b = "prosail_example\<lparr>p_rsoil0 := Some (flat (1 / 5)), p_rsoil := Some 7\<rparr>"]
  by (simp add: sail_example_def prosail_example_def upper_def upper_char_def factors_def
      resolve_spectra_supplied length_flat example_globals_def resolve_spectra_def
      resolve_spectrum1_def resolve_spectrum2_def lookup_def prospect_inputs_def
      constant_leaf_def echo_canopy_def select_factor_def row_def call_sail_def)

text \<open>
  Claim C6 as stated fails: \<^verbatim>\<open>rsoil0\<close> is supplied, and the call fails on the length of
  \<^verbatim>\<open>soil_spectrum1\<close> before \<^verbatim>\<open>sail\<close> is called.
\<close>

theorem precomputed_soil_counterexample:
  "s_rsoil0 (sail_example\<lparr>s_rsoil0 := Some (flat (1 / 5)),
      s_soil_spectrum1 := Some (replicate 2100 (3 / 10))\<rparr>) = Some (flat (1 / 5)) \<and>
   run_sail example_globals
     (sail_example\<lparr>s_rsoil0 := Some (flat (1 / 5)),
        s_soil_spectrum1 := Some (replicate 2100 (3 / 10))\<rparr>) = Inl AssertionError"
  by (simp add: run_sail_def sail_inputs_def check_factor_def upper_def upper_char_def
      factors_def sail_example_def resolve_spectra_malformed1)

subsection \<open>Selecting the rows\<close>

lemma check_factor_result:
  "check_factor f = Inr F \<Longrightarrow> F = upper f \<and> F \<in> set factors"
  by (auto simp add: check_factor_def Let_def split: if_splits)

lemma sail_inputs_factor:
  "sail_inputs g a = Inr (F, ca) \<Longrightarrow> F = upper (s_factor a) \<and> F \<in> set factors"
  by (auto simp add: sail_inputs_def dest: check_factor_result split: sum.splits prod.splits)

lemma prosail_inputs_factor:
  "prosail_inputs g b = Inr (F, ca) \<Longrightarrow> F = upper (p_factor b) \<and> F \<in> set factors"
  by (auto simp add: prosail_inputs_def prosail_soil_def dest: check_factor_result
      split: sum.splits prod.splits)

lemma call_sail_bound:
  "g_sail g = Some f \<Longrightarrow> f ca = Inr rho \<Longrightarrow> call_sail g F ca = select_factor F rho"
  by (simp add: call_sail_def lookup_def)

lemma select_factor_four_rows:
  "length rho = 4 \<Longrightarrow>
   select_factor ''SDR'' rho = Inr (Row (rho ! 0)) \<and>
   select_factor ''BHR'' rho = Inr (Row (rho ! 1)) \<and>
   select_factor ''DHR'' rho = Inr (Row (rho ! 2)) \<and>
   select_factor ''HDR'' rho = Inr (Row (rho ! 3)) \<and>
   select_factor ''ALL'' rho = Inr (Rows rho)"
  by (simp add: select_factor_def row_def)

lemma select_factor_not_None:
  "F \<in> set factors \<Longrightarrow> select_factor F rho \<noteq> Inr PyNone"
  by (auto simp add: select_factor_def row_def factors_def)

text \<open>
  Claim C7. In a call that passes every check, reaches the call of \<^verbatim>\<open>sail\<close> and gets
  from it an array \<open>rho\<close> of four rows, the upper-cased factor is one of the five names
  and the value returned is row 0 of \<open>rho\<close> for SDR, row 1 for BHR, row 2 for DHR, row 3
  for HDR, and \<open>rho\<close> itself for ALL; in \<^verbatim>\<open>run_sail\<close> and in \<^verbatim>\<open>run_prosail\<close>.
\<close>

theorem factor_selects_rows:
  "(sail_inputs g a = Inr (F, ca) \<and> g_sail g = Some f \<and> f ca = Inr rho \<and> length rho = 4 \<longrightarrow>
      F = upper (s_factor a) \<and> F \<in> set factors \<and>
      (F = ''SDR'' \<longrightarrow> run_sail g a = Inr (Row (rho ! 0))) \<and>
      (F = ''BHR'' \<longrightarrow> run_sail g a = Inr (Row (rho ! 1))) \<and>
      (F = ''DHR'' \<longrightarrow> run_sail g a = Inr (Row (rho ! 2))) \<and>
      (F = ''HDR'' \<longrightarrow> run_sail g a = Inr (Row (rho ! 3))) \<and>
      (F = ''ALL'' \<longrightarrow> run_sail g a = Inr (Rows rho))) \<and>
   (prosail_inputs g b = Inr (F, cb) \<and> g_sail g = Some f \<and> f cb = Inr rho \<and> length rho = 4 \<longrightarrow>
      F = upper (p_factor b) \<and> F \<in> set factors \<and>
      (F = ''SDR'' \<longrightarrow> run_prosail g b = Inr (Row (rho ! 0))) \<and>
      (F = ''BHR'' \<longrightarrow> run_prosail g b = Inr (Row (rho ! 1))) \<and>
      (F = ''DHR'' \<longrightarrow> run_prosail g b = Inr (Row (rho ! 2))) \<and>
      (F = ''HDR'' \<longrightarrow> run_prosail g b = Inr (Row (rho ! 3))) \<and>
      (F = ''ALL'' \<longrightarrow> run_prosail g b = Inr (Rows rho)))"
proof -
  have sail: "run_sail g a = select_factor F rho"
    if "sail_inputs g a = Inr (F, ca)" "g_sail g = Some f" "f ca = Inr rho"
    using that by (simp add: run_sail_def call_sail_bound)
  have prosail: "run_prosail g b = select_factor F rho"
    if "prosail_inputs g b = Inr (F, cb)" "g_sail g = Some f" "f cb = Inr rho"
    using that by (simp add: run_prosail_def call_sail_bound)
  show ?thesis
    using sail prosail sail_inputs_factor [of g a F ca] prosail_inputs_factor [of g b F cb]
      select_factor_four_rows [of rho]
    by auto
qed

lemma sail_call_inputs:
  "upper f \<in> set factors \<Longrightarrow>
   sail_inputs g (sail_call f) = Inr (upper f, example_sail_args)"
  by (simp add: sail_inputs_def check_factor_ok sail_call_def sail_example_def
      resolve_spectra_supplied length_flat resolve_rsoil0_def example_sail_args_def)

lemma prosail_call_inputs:
  "upper f \<in> set factors \<Longrightarrow>
   prosail_inputs example_globals (prosail_call f) = Inr (upper f, example_sail_args)"
  by (simp add: prosail_inputs_def prosail_soil_def check_factor_ok prosail_call_def
      prosail_example_def resolve_spectra_supplied length_flat resolve_rsoil0_def
      example_sail_args_def prospect_inputs_def lookup_def example_globals_def
      constant_leaf_def)

lemma echo_canopy_example:
  "g_sail example_globals = Some echo_canopy"
  "echo_canopy example_sail_args = Inr [flat (1 / 5), flat (5 / 100), flat (4 / 100), flat 3]"
  by (simp_all add: example_globals_def echo_canopy_def example_sail_args_def)

theorem factor_selects_rows_witness:
  "run_sail example_globals (sail_call ''sdr'') = Inr (Row (flat (1 / 5))) \<and>
   run_sail example_globals (sail_call ''bhr'') = Inr (Row (flat (5 / 100))) \<and>
   run_sail example_globals (sail_call ''dhr'') = Inr (Row (flat (4 / 100))) \<and>
   run_sail example_globals (sail_call ''hdr'') = Inr (Row (flat 3)) \<and>
   run_sail example_globals (sail_call ''all'') =
     Inr (Rows [flat (1 / 5), flat (5 / 100), flat (4 / 100), flat 3]) \<and>
   run_prosail example_globals (prosail_call ''hdr'') = Inr (Row (flat 3))"
  using
    factor_selects_rows [where g = example_globals and f = echo_canopy
      and a = "sail_call ''sdr''" and F = "''SDR''" and ca = example_sail_args
      and rho = "[flat (1 / 5), flat (5 / 100), flat (4 / 100), flat 3]"]
    factor_selects_rows [where g = example_globals and f = echo_canopy
      and a = "sail_call ''bhr''" and F = "''BHR''" and ca = example_sail_args
      and rho = "[flat (1 / 5), flat (5 / 100), flat (4 / 100), flat 3]"]
    factor_selects_rows [where g = example_globals and f = echo_canopy
      and a = "sail_call ''dhr''" and F = "''DHR''" and ca = example_sail_args
      and rho = "[flat (1 / 5), flat (5 / 100), flat (4 / 100), flat 3]"]
    factor_selects_rows [where g = example_globals and f = echo_canopy
      and a = "sail_call ''hdr''" and b = "prosail_call ''hdr''" and F = "''HDR''"
      and ca = example_sail_args and cb = example_sail_args
      and rho = "[flat (1 / 5), flat (5 / 100), flat (4 / 100), flat 3]"]
    factor_selects_rows [where g = example_globals and f = echo_canopy
      and a = "sail_call ''all''" and F = "''ALL''" and ca = example_sail_args
      and rho = "[flat (1 / 5), flat (5 / 100), flat (4 / 100), flat 3]"]
  by (simp add: sail_call_inputs prosail_call_inputs echo_canopy_example upper_examples
      factors_def)

lemma sail_inputs_other_factor:
  "sail_inputs g (a\<lparr>s_factor := f\<rparr>) = Inr (F, ca) \<Longrightarrow> upper f' \<in> set factors \<Longrightarrow>
   sail_inputs g (a\<lparr>s_factor := f'\<rparr>) = Inr (upper f', ca)"
  by (auto simp add: sail_inputs_def check_factor_ok split: sum.splits prod.splits)

lemma run_sail_returns:
  "run_sail g a = Inr v \<Longrightarrow>
   \<exists>F ca f rho. sail_inputs g a = Inr (F, ca) \<and> g_sail g = Some f \<and> f ca = Inr rho \<and>
     select_factor F rho = Inr v"
  by (auto simp add: run_sail_def call_sail_def lookup_def
      split: sum.splits prod.splits option.splits)

lemma run_sail_other_factor:
  assumes "sail_inputs g (a\<lparr>s_factor := f\<rparr>) = Inr (F, ca)"
    and "g_sail g = Some c" "c ca = Inr rho" "upper n \<in> set factors"
  shows "run_sail g (a\<lparr>s_factor := n\<rparr>) = select_factor (upper n) rho"
  using sail_inputs_other_factor [OF assms(1) assms(4)] assms(2,3)
  by (simp add: run_sail_def call_sail_bound)

lemma run_sail_all_and_rows:
  assumes "sail_inputs g (a\<lparr>s_factor := ''ALL''\<rparr>) = Inr (F, ca)"
    and "g_sail g = Some c" "c ca = Inr rho" "length rho = 4"
  shows "run_sail g (a\<lparr>s_factor := ''ALL''\<rparr>) = Inr (Rows rho) \<and>
     run_sail g (a\<lparr>s_factor := ''SDR''\<rparr>) = Inr (Row (rho ! 0)) \<and>
     run_sail g (a\<lparr>s_factor := ''BHR''\<rparr>) = Inr (Row (rho ! 1)) \<and>
     run_sail g (a\<lparr>s_factor := ''DHR''\<rparr>) = Inr (Row (rho ! 2)) \<and>
     run_sail g (a\<lparr>s_factor := ''HDR''\<rparr>) = Inr (Row (rho ! 3))"
  using run_sail_other_factor [OF assms(1-3), of "''ALL''"]
    run_sail_other_factor [OF assms(1-3), of "''SDR''"]
    run_sail_other_factor [OF assms(1-3), of "''BHR''"]
    run_sail_other_factor [OF assms(1-3), of "''DHR''"]
    run_sail_other_factor [OF assms(1-3), of "''HDR''"]
    select_factor_four_rows [OF assms(4)]
  by (simp add: factors_def upper_def upper_char_def)

text \<open>
  Claim C8. Take arguments with which \<^verbatim>\<open>run_sail\<close>, called with factor ALL, passes every
  check and gets an array \<open>rho\<close> of four rows from the canopy model. Then that call
  returns \<open>rho\<close>, and the calls with factors SDR, BHR, DHR and HDR and otherwise the
  same arguments return rows 0, 1, 2 and 3 of \<open>rho\<close>. Conversely, whatever the call
  with factor ALL returns is the array of the canopy model, to which the same applies.
  The canopy model is a function of its arguments; the number of columns is that of
  its result.
\<close>

theorem all_rows_consistent:
  "(sail_inputs g (a\<lparr>s_factor := ''ALL''\<rparr>) = Inr (F, ca) \<and> g_sail g = Some c \<and>
    c ca = Inr rho \<and> length rho = 4 \<longrightarrow>
      run_sail g (a\<lparr>s_factor := ''ALL''\<rparr>) = Inr (Rows rho) \<and>
      run_sail g (a\<lparr>s_factor := ''SDR''\<rparr>) = Inr (Row (rho ! 0)) \<and>
      run_sail g (a\<lparr>s_factor := ''BHR''\<rparr>) = Inr (Row (rho ! 1)) \<and>
      run_sail g (a\<lparr>s_factor := ''DHR''\<rparr>) = Inr (Row (rho ! 2)) \<and>
      run_sail g (a\<lparr>s_factor := ''HDR''\<rparr>) = Inr (Row (rho ! 3))) \<and>
   (run_sail g (a\<lparr>s_factor := ''ALL''\<rparr>) = Inr v \<longrightarrow>
      (\<exists>rows. v = Rows rows \<and>
         (length rows = 4 \<longrightarrow>
            run_sail g (a\<lparr>s_factor := ''SDR''\<rparr>) = Inr (Row (rows ! 0)) \<and>
            run_sail g (a\<lparr>s_factor := ''BHR''\<rparr>) = Inr (Row (rows ! 1)) \<and>
            run_sail g (a\<lparr>s_factor := ''DHR''\<rparr>) = Inr (Row (rows ! 2)) \<and>
            run_sail g (a\<lparr>s_factor := ''HDR''\<rparr>) = Inr (Row (rows ! 3)))))"
proof (rule conjI)
  show "sail_inputs g (a\<lparr>s_factor := ''ALL''\<rparr>) = Inr (F, ca) \<and> g_sail g = Some c \<and>
    c ca = Inr rho \<and> length rho = 4 \<longrightarrow>
      run_sail g (a\<lparr>s_factor := ''ALL''\<rparr>) = Inr (Rows rho) \<and>
      run_sail g (a\<lparr>s_factor := ''SDR''\<rparr>) = Inr (Row (rho ! 0)) \<and>
      run_sail g (a\<lparr>s_factor := ''BHR''\<rparr>) = Inr (Row (rho ! 1)) \<and>
      run_sail g (a\<lparr>s_factor := ''DHR''\<rparr>) = Inr (Row (rho ! 2)) \<and>
      run_sail g (a\<lparr>s_factor := ''HDR''\<rparr>) = Inr (Row (rho ! 3))"
    using run_sail_all_and_rows [of g a F ca c rho] by blast
next
  show "run_sail g (a\<lparr>s_factor := ''ALL''\<rparr>) = Inr v \<longrightarrow>
      (\<exists>rows. v = Rows rows \<and>
         (length rows = 4 \<longrightarrow>
            run_sail g (a\<lparr>s_factor := ''SDR''\<rparr>) = Inr (Row (rows ! 0)) \<and>
            run_sail g (a\<lparr>s_factor := ''BHR''\<rparr>) = Inr (Row (rows ! 1)) \<and>
            run_sail g (a\<lparr>s_factor := ''DHR''\<rparr>) = Inr (Row (rows ! 2)) \<and>
            run_sail g (a\<lparr>s_factor := ''HDR''\<rparr>) = Inr (Row (rows ! 3))))"
  proof
    assume ret: "run_sail g (a\<lparr>s_factor := ''ALL''\<rparr>) = Inr v"
    from run_sail_returns [OF ret] obtain G cb d rows where
      inp: "sail_inputs g (a\<lparr>s_factor := ''ALL''\<rparr>) = Inr (G, cb)" and
      d: "g_sail g = Some d" "d cb = Inr rows" and sel: "select_factor G rows = Inr v"
      by blast
    from sail_inputs_factor [OF inp] have "G = ''ALL''"
      by (simp add: upper_def upper_char_def)
    with sel have v: "v = Rows rows"
      by (simp add: select_factor_def)
    from run_sail_all_and_rows [OF inp d] v
    show "\<exists>rows. v = Rows rows \<and>
         (length rows = 4 \<longrightarrow>
            run_sail g (a\<lparr>s_factor := ''SDR''\<rparr>) = Inr (Row (rows ! 0)) \<and>
            run_sail g (a\<lparr>s_factor := ''BHR''\<rparr>) = Inr (Row (rows ! 1)) \<and>
            run_sail g (a\<lparr>s_factor := ''DHR''\<rparr>) = Inr (Row (rows ! 2)) \<and>
            run_sail g (a\<lparr>s_factor := ''HDR''\<rparr>) = Inr (Row (rows ! 3)))"
      by blast
  qed
qed

lemma sail_call_factor: "sail_call f\<lparr>s_factor := f'\<rparr> = sail_call f'"
  by (simp add: sail_call_def)

theorem all_rows_consistent_witness:
  "run_sail example_globals (sail_call ''ALL'') =
     Inr (Rows [flat (1 / 5), flat (5 / 100), flat (4 / 100), flat 3]) \<and>
   run_sail example_globals (sail_call ''SDR'') = Inr (Row (flat (1 / 5))) \<and>
   run_sail example_globals (sail_call ''BHR'') = Inr (Row (flat (5 / 100))) \<and>
   run_sail example_globals (sail_call ''DHR'') = Inr (Row (flat (4 / 100))) \<and>
   run_sail example_globals (sail_call ''HDR'') = Inr (Row (flat 3))"
  using all_rows_consistent [where g = example_globals and a = "sail_call ''ALL''"
      and F = "''ALL''" and ca = example_sail_args and c = echo_canopy
      and rho = "[flat (1 / 5), flat (5 / 100), flat (4 / 100), flat 3]"
      and v = "Rows [flat (1 / 5), flat (5 / 100), flat (4 / 100), flat 3]"]
  by (simp add: sail_call_factor sail_call_inputs upper_examples factors_def
      echo_canopy_example)

subsection \<open>The unbound names\<close>

text \<open>
  The file neither defines nor imports \<^verbatim>\<open>sail\<close>: in the namespace of the module,
  \<^verbatim>\<open>run_sail\<close> returns on no input either. The properties of the soil background and of
  the selection above are stated for a namespace in which a canopy model is bound.
\<close>

lemma run_sail_module_never_returns:
  "run_sail (module_globals rp) a \<noteq> Inr v"
  by (auto simp add: run_sail_def call_sail_def lookup_def module_globals_def
      split: sum.splits prod.splits)

lemma prospect_inputs_unbound:
  "g_nr g = None \<Longrightarrow> prospect_inputs g b = Inl (NameError ''nr'')"
  by (simp add: prospect_inputs_def lookup_def)

lemma prospect_inputs_needs_tables:
  "prospect_inputs g b = Inr la \<Longrightarrow>
   g_nr g \<noteq> None \<and> g_kab g \<noteq> None \<and> g_kcar g \<noteq> None \<and> g_kbrown g \<noteq> None \<and>
   g_kw g \<noteq> None \<and> g_km g \<noteq> None \<and> g_kant g \<noteq> None"
  by (auto simp add: prospect_inputs_def lookup_def split: option.splits)

lemma run_prosail_needs_tables:
  "run_prosail g b = Inr v \<Longrightarrow>
   g_nr g \<noteq> None \<and> g_kab g \<noteq> None \<and> g_kcar g \<noteq> None \<and> g_kbrown g \<noteq> None \<and>
   g_kw g \<noteq> None \<and> g_km g \<noteq> None \<and> g_kant g \<noteq> None"
proof -
  assume "run_prosail g b = Inr v"
  then obtain la where "prospect_inputs g b = Inr la"
    by (auto simp add: run_prosail_def prosail_inputs_def split: sum.splits prod.splits)
  then show ?thesis
    by (rule prospect_inputs_needs_tables)
qed

text \<open>
  Claim C9. In the namespace of the module, \<^verbatim>\<open>run_prosail\<close> returns on no input; when
  the selector check and the soil resolution pass, it raises \<^verbatim>\<open>NameError\<close> for \<^verbatim>\<open>nr\<close>,
  the first of the seven names in the call of the leaf model, all of them unbound in
  that namespace.
\<close>

theorem run_prosail_never_returns:
  "run_prosail (module_globals rp) b \<noteq> Inr v \<and>
   (prosail_soil (module_globals rp) b = Inr (F, r0) \<longrightarrow>
      run_prosail (module_globals rp) b = Inl (NameError ''nr'')) \<and>
   g_nr (module_globals rp) = None \<and> g_kab (module_globals rp) = None \<and>
   g_kcar (module_globals rp) = None \<and> g_kbrown (module_globals rp) = None \<and>
   g_kw (module_globals rp) = None \<and> g_km (module_globals rp) = None \<and>
   g_kant (module_globals rp) = None"
proof -
  have unbound: "g_nr (module_globals rp) = None"
    by (simp add: module_globals_def)
  have "run_prosail (module_globals rp) b \<noteq> Inr v"
    using run_prosail_needs_tables [of "module_globals rp" b v] unbound by blast
  moreover have "run_prosail (module_globals rp) b = Inl (NameError ''nr'')"
    if "prosail_soil (module_globals rp) b = Inr (F, r0)"
    using that unbound
    by (simp add: run_prosail_def prosail_inputs_def prospect_inputs_unbound)
  ultimately show ?thesis
    by (simp add: module_globals_def)
qed

lemma prosail_call_soil:
  "upper f \<in> set factors \<Longrightarrow> prosail_soil g (prosail_call f) = Inr (upper f, flat (1 / 5))"
  by (simp add: prosail_soil_def check_factor_ok prosail_call_def prosail_example_def
      resolve_spectra_supplied length_flat resolve_rsoil0_def)

theorem run_prosail_never_returns_witness:
  "prosail_soil (module_globals constant_leaf) (prosail_call ''sdr'') =
     Inr (''SDR'', flat (1 / 5)) \<and>
   run_prosail (module_globals constant_leaf) (prosail_call ''sdr'') = Inl (NameError ''nr'')"
  using run_prosail_never_returns [where rp = constant_leaf and b = "prosail_call ''sdr''"
      and F = "''SDR''" and ?r0.0 = "flat (1 / 5)"]
  by (simp add: prosail_call_soil upper_examples factors_def)

lemma resolve_spectra_unbound:
  "g_spectral_libs g = None \<Longrightarrow> ss1 = None \<or> ss2 = None \<Longrightarrow>
   resolve_spectra g ss1 ss2 =
     Inl (case ss1 of
            None \<Rightarrow> NameError ''spectral_libs''
          | Some s1 \<Rightarrow> if length s1 = 2101 then NameError ''spectral_libs'' else AssertionError)"
  by (auto simp add: resolve_spectra_def resolve_spectrum1_def resolve_spectrum2_def lookup_def
      split: option.splits)

lemma run_sail_unbound_spectral_libs:
  assumes "g_spectral_libs g = None"
    and "s_soil_spectrum1 a = None \<or> s_soil_spectrum2 a = None"
  shows "run_sail g a =
     Inl (if upper (s_factor a) \<notin> set factors then ValueError factor_msg
          else case s_soil_spectrum1 a of
                 None \<Rightarrow> NameError ''spectral_libs''
               | Some s1 \<Rightarrow>
                   if length s1 = 2101 then NameError ''spectral_libs'' else AssertionError)"
  using assms
  by (simp add: run_sail_def sail_inputs_def resolve_spectra_unbound check_factor_ok
      check_factor_bad)

lemma run_prosail_unbound_spectral_libs:
  assumes "g_spectral_libs g = None"
    and "p_soil_spectrum1 b = None \<or> p_soil_spectrum2 b = None"
  shows "run_prosail g b =
     Inl (if upper (p_factor b) \<notin> set factors then ValueError factor_msg
          else case p_soil_spectrum1 b of
                 None \<Rightarrow> NameError ''spectral_libs''
               | Some s1 \<Rightarrow>
                   if length s1 = 2101 then NameError ''spectral_libs'' else AssertionError)"
  using assms
  by (simp add: run_prosail_def prosail_inputs_def prosail_soil_def resolve_spectra_unbound
      check_factor_ok check_factor_bad)

lemma defaults_used_when_bound:
  "run_sail example_globals (sail_example\<lparr>s_rsoil := Some 1, s_psoil := Some 1\<rparr>) =
     Inr (Row (flat (3 / 10)))"
  by (simp add: run_sail_def sail_inputs_def check_factor_def upper_def upper_char_def
      factors_def sail_example_def resolve_spectra_def resolve_spectrum1_def
      resolve_spectrum2_def lookup_def example_globals_def resolve_rsoil0_def
      soil_mix_def np_add_def np_scale_def flat_def call_sail_def echo_canopy_def
      select_factor_def row_def)

text \<open>
  Claim C10. In the namespace of the module, a call of \<^verbatim>\<open>run_sail\<close> or \<^verbatim>\<open>run_prosail\<close>
  that omits \<^verbatim>\<open>soil_spectrum1\<close> or \<^verbatim>\<open>soil_spectrum2\<close> raises an error. With a valid
  factor the error is the \<^verbatim>\<open>NameError\<close> for \<^verbatim>\<open>spectral_libs\<close>, unless
  \<^verbatim>\<open>soil_spectrum1\<close> is supplied with a wrong length, which fails the assertion first.
\<close>

theorem default_spectra_unreachable:
  "(s_soil_spectrum1 a = None \<or> s_soil_spectrum2 a = None \<longrightarrow>
      (\<exists>e. run_sail (module_globals rp) a = Inl e) \<and>
      (upper (s_factor a) \<in> set factors \<longrightarrow>
         run_sail (module_globals rp) a =
           Inl (case s_soil_spectrum1 a of
                  None \<Rightarrow> NameError ''spectral_libs''
                | Some sp \<Rightarrow>
                    if length sp = 2101 then NameError ''spectral_libs''
                    else AssertionError))) \<and>
   (p_soil_spectrum1 b = None \<or> p_soil_spectrum2 b = None \<longrightarrow>
      (\<exists>e. run_prosail (module_globals rp) b = Inl e) \<and>
      (upper (p_factor b) \<in> set factors \<longrightarrow>
         run_prosail (module_globals rp) b =
           Inl (case p_soil_spectrum1 b of
                  None \<Rightarrow> NameError ''spectral_libs''
                | Some sp \<Rightarrow>
                    if length sp = 2101 then NameError ''spectral_libs''
                    else AssertionError)))"
proof -
  have unbound: "g_spectral_libs (module_globals rp) = None"
    by (simp add: module_globals_def)
  show ?thesis
    using run_sail_unbound_spectral_libs [OF unbound, of a]
      run_prosail_unbound_spectral_libs [OF unbound, of b]
    by simp
qed

theorem default_spectra_unreachable_witness:
  "run_sail (module_globals constant_leaf) (sail_example\<lparr>s_rsoil0 := Some (flat (1 / 5))\<rparr>) =
     Inl (NameError ''spectral_libs'') \<and>
   run_prosail (module_globals constant_leaf)
     (prosail_example\<lparr>p_rsoil := Some 1, p_psoil := Some (1 / 2),
        p_soil_spectrum1 := Some (flat (3 / 10))\<rparr>) = Inl (NameError ''spectral_libs'')"
  using default_spectra_unreachable [where rp = constant_leaf
      and a = "sail_example\<lparr>s_rsoil0 := Some (flat (1 / 5))\<rparr>"
      and b = "prosail_example\<lparr>p_rsoil := Some 1, p_psoil := Some (1 / 2),
        p_soil_spectrum1 := Some (flat (3 / 10))\<rparr>"]
  by (simp add: sail_example_def prosail_example_def upper_examples factors_def length_flat)

end
